theory Spec2Isabelle
  imports Complex_Main "HOL-Library.Log_Nat"
begin

section \<open>Values exchanged with the collaborators\<close>

text \<open>
  Every collaborator of \<^verbatim>\<open>package_handler.js\<close> (\<^verbatim>\<open>data\<close>, \<^verbatim>\<open>users\<close>, \<^verbatim>\<open>git\<close>) answers with
  a server status object: \<^verbatim>\<open>{ok: true, content}\<close> or \<^verbatim>\<open>{ok: false, short, content}\<close>.
  The handlers only read \<^verbatim>\<open>ok\<close>, \<^verbatim>\<open>short\<close> and \<^verbatim>\<open>content\<close>.
\<close>

datatype 'a server_status = OK 'a | Failed string string

fun ok :: "'a server_status \<Rightarrow> bool" where
  "ok (OK c) = True"
| "ok (Failed short content) = False"

text \<open>
  What a handler sends: the constructor names the call that produced the response, since
  \<^verbatim>\<open>common_handler.js\<close> and \<^verbatim>\<open>error.js\<close> (which pick the status codes of the error
  responses) are outside the files modelled here.
\<close>

datatype 'b response =
    Status_json nat 'b
  | Status_send nat
  | Redirect string
  | HandleError string string
  | NotFound
  | ServerError string
  | AuthFail string string
  | ServerErrorJSON

section \<open>JavaScript arrays\<close>

text \<open>
  \<^verbatim>\<open>arr.splice(start, deleteCount)\<close> with non-negative integer arguments removes the
  elements at the indices \<open>[start, start + deleteCount)\<close> that exist; both bounds are
  clamped to the length of the array, as \<open>take\<close> and \<open>drop\<close> do.
\<close>

definition splice :: "nat \<Rightarrow> nat \<Rightarrow> 'a list \<Rightarrow> 'a list" where
  "splice start deleteCount xs = take start xs @ drop (start + deleteCount) xs"

text \<open>
  \<^verbatim>\<open>Math.ceil(n / p)\<close> for an array length \<open>n\<close> and the configured page size \<open>p\<close>.
  The configuration gives a positive integer (\<^verbatim>\<open>PAGINATE: 30\<close>); for such \<open>p\<close> the
  floating-point quotient of two integers below \<open>2^32\<close> has the same ceiling as the exact
  quotient. For \<open>p = 0\<close> JavaScript yields \<^verbatim>\<open>Infinity\<close> or \<^verbatim>\<open>NaN\<close>, which this
  definition does not represent: it stands for the source only where \<open>0 < p\<close>.
\<close>

definition Math_ceil_div :: "nat \<Rightarrow> nat \<Rightarrow> nat" where
  "Math_ceil_div n p = nat \<lceil>real n / real p\<rceil>"

text \<open>
  Arrays are objects: a variable holds a reference, and \<^verbatim>\<open>sort\<close>, \<^verbatim>\<open>reverse\<close> and
  \<^verbatim>\<open>splice\<close> change the array every holder of the reference sees.
\<close>

type_synonym ref = nat

record 'p heap =
  cells :: "ref \<Rightarrow> 'p list"
  fresh :: ref

definition in_place :: "('p list \<Rightarrow> 'p list) \<Rightarrow> ref \<Rightarrow> 'p heap \<Rightarrow> ref \<times> 'p heap" where
  "in_place f r h = (r, h\<lparr>cells := (cells h)(r := f (cells h r))\<rparr>)"

section \<open>The collection module\<close>

text \<open>
  Modelled from the spec: \<^verbatim>\<open>collection.js\<close> is required by the handler but is not among
  the source files. Its functions are parameters of the handlers. Section 9 of the
  specification calls the handler's use of them a "three-pass array-mutation chain
  (copy, sort, reverse-direction, prune)", and the handler's own comment asks for a deep
  copy "to avoid making changes to the cached package data": \<^verbatim>\<open>Sort\<close>, \<^verbatim>\<open>Direction\<close> and
  \<^verbatim>\<open>SearchWithinPackages\<close> rearrange the array they are given and return that same
  array, \<^verbatim>\<open>DeepCopy\<close> returns a new array with equal content, the two prune functions
  build new values.
\<close>

record ('p, 's, 'f) collection =
  Sort :: "'p list \<Rightarrow> string \<Rightarrow> 'p list"
  Direction :: "'p list \<Rightarrow> string \<Rightarrow> 'p list"
  SearchWithinPackages :: "string \<Rightarrow> 'p list \<Rightarrow> 'p list"
  POSPrune :: "'p list \<Rightarrow> 's list"
  POFPrune :: "'p \<Rightarrow> 'f"
  EngineFilter :: "'f \<Rightarrow> string \<Rightarrow> 'f"

definition DeepCopy :: "ref \<Rightarrow> 'p heap \<Rightarrow> ref \<times> 'p heap" where
  "DeepCopy r h =
     (fresh h, h\<lparr>cells := (cells h)(fresh h := cells h r), fresh := Suc (fresh h)\<rparr>)"

section \<open>Listing and search\<close>

record params =
  page :: nat
  sort_param :: string
  direction :: string
  query :: string

text \<open>One entry of the \<^verbatim>\<open>Link\<close> header: the route, the interpolated values, the relation.\<close>

record link =
  route :: string
  q :: "string option"
  page_no :: nat
  sort_v :: string
  order_v :: string
  rel :: string

text \<open>\<^verbatim>\<open>params.page++\<close>: the value of the expression is the old page; the field is then one more.\<close>

definition page_post_increment :: "params \<Rightarrow> nat \<times> params" where
  "page_post_increment ps = (page ps, ps\<lparr>page := page ps + 1\<rparr>)"

text \<open>
  The two conditional \<^verbatim>\<open>splice\<close> calls (lines 61 to 70 of \<^verbatim>\<open>GETPackages\<close>, the same
  statements at lines 253 to 264 of \<^verbatim>\<open>GETPackagesSearch\<close>), on the content of the array.
\<close>

definition prune_to_page :: "nat \<Rightarrow> nat \<Rightarrow> nat \<Rightarrow> 'a list \<Rightarrow> 'a list" where
  "prune_to_page paginated_amount pg total_pages packages =
     (let packages = (if pg \<noteq> 1 then splice 0 (pg * paginated_amount) packages else packages);
          packages = (if pg \<noteq> total_pages
                      then splice (pg * paginated_amount + paginated_amount) (length packages) packages
                      else packages)
      in packages)"

record ('p, 's) listing =
  reply :: "'s list response"
  link_header :: "link list"
  heap_after :: "'p heap"
  params_after :: params

definition GETPackages ::
  "('p, 's, 'f) collection \<Rightarrow> nat \<Rightarrow> params \<Rightarrow> ref server_status \<Rightarrow> 'p heap \<Rightarrow> ('p, 's) listing"
where
  "GETPackages collection paginated_amount ps all_packages h0 =
     (case all_packages of
        Failed short content \<Rightarrow>
          \<lparr>reply = HandleError short content, link_header = [], heap_after = h0, params_after = ps\<rparr>
      | OK content \<Rightarrow>
          (let (packages, h1) = DeepCopy content h0;
               (packages, h2) = in_place (\<lambda>xs. Sort collection xs (sort_param ps)) content h1;
               (packages, h3) = in_place (\<lambda>xs. Direction collection xs (direction ps)) packages h2;
               total_pages = Math_ceil_div (length (cells h3 packages)) paginated_amount;
               (packages, h4) = in_place (prune_to_page paginated_amount (page ps) total_pages) packages h3;
               body = POSPrune collection (cells h4 packages);
               self = \<lparr>route = ''/api/packages'', q = None, page_no = page ps,
                        sort_v = sort_param ps, order_v = direction ps, rel = ''self''\<rparr>;
               last = \<lparr>route = ''/api/packages'', q = None, page_no = total_pages,
                        sort_v = sort_param ps, order_v = direction ps, rel = ''last''\<rparr>;
               (next_page, ps') = page_post_increment ps;
               next = \<lparr>route = ''/api/packages'', q = None, page_no = next_page,
                        sort_v = sort_param ps', order_v = direction ps', rel = ''next''\<rparr>
           in \<lparr>reply = Status_json 200 body, link_header = [self, last, next],
                heap_after = h4, params_after = ps'\<rparr>))"

definition GETPackagesSearch ::
  "('p, 's, 'f) collection \<Rightarrow> nat \<Rightarrow> params \<Rightarrow> ref server_status \<Rightarrow> 'p heap \<Rightarrow> ('p, 's) listing"
where
  "GETPackagesSearch collection paginated_amount ps all_packages h0 =
     (case all_packages of
        Failed short content \<Rightarrow>
          \<lparr>reply = HandleError short content, link_header = [], heap_after = h0, params_after = ps\<rparr>
      | OK content \<Rightarrow>
          (let (packages, h1) = DeepCopy content h0;
               (packages, h2) = in_place (SearchWithinPackages collection (query ps)) packages h1;
               (packages, h3) = in_place (\<lambda>xs. Sort collection xs (sort_param ps)) packages h2;
               (packages, h4) = in_place (\<lambda>xs. Direction collection xs (direction ps)) packages h3;
               total_pages = Math_ceil_div (length (cells h4 packages)) paginated_amount;
               (packages, h5) = in_place (prune_to_page paginated_amount (page ps) total_pages) packages h4;
               body = POSPrune collection (cells h5 packages);
               self = \<lparr>route = ''/api/packages/search'', q = Some (query ps), page_no = page ps,
                        sort_v = sort_param ps, order_v = direction ps, rel = ''self''\<rparr>;
               last = \<lparr>route = ''/api/packages'', q = Some (query ps), page_no = total_pages,
                        sort_v = sort_param ps, order_v = direction ps, rel = ''last''\<rparr>;
               (next_page, ps') = page_post_increment ps;
               next = \<lparr>route = ''/api/packages/search'', q = Some (query ps), page_no = next_page,
                        sort_v = sort_param ps', order_v = direction ps', rel = ''next''\<rparr>
           in \<lparr>reply = Status_json 200 body, link_header = [self, last, next],
                heap_after = h5, params_after = ps'\<rparr>))"

section \<open>Single package view\<close>

text \<open>
  \<^verbatim>\<open>query.engine\<close> returns the version string or \<^verbatim>\<open>false\<close> (the handler's comments at
  lines 307 and 584): \<open>None\<close> is \<^verbatim>\<open>false\<close>. A string is truthy unless it is empty.
\<close>

definition truthy :: "string option \<Rightarrow> bool" where
  "truthy v = (case v of None \<Rightarrow> False | Some s \<Rightarrow> s \<noteq> [])"

text \<open>
  Modelled from the spec: \<^verbatim>\<open>query.js\<close> is not among the source files. Section 4.4 and the
  handler's comments say that \<^verbatim>\<open>query.engine\<close> gives \<^verbatim>\<open>false\<close> when the requested version is
  absent or does not parse as a semver, and the version otherwise. The semver test itself
  is a parameter.
\<close>

definition query_engine :: "(string \<Rightarrow> bool) \<Rightarrow> string option \<Rightarrow> string option" where
  "query_engine is_semver requested =
     (case requested of
        None \<Rightarrow> None
      | Some v \<Rightarrow> if is_semver v then Some v else None)"

definition GETPackagesDetails ::
  "('p, 's, 'f) collection \<Rightarrow> string option \<Rightarrow> 'p server_status \<Rightarrow> 'f response"
where
  "GETPackagesDetails collection engine pack =
     (case pack of
        Failed short content \<Rightarrow> HandleError short content
      | OK content \<Rightarrow>
          (let pack = POFPrune collection content;
               pack = (case engine of
                         None \<Rightarrow> pack
                       | Some e \<Rightarrow> if e \<noteq> [] then EngineFilter collection pack e else pack)
           in Status_json 200 pack))"

section \<open>Packages, and the calls a handler makes\<close>

record version_obj =
  tarball_url :: string

record package =
  name :: string
  downloads :: int
  star_gazers :: "string list"
  versions :: "string \<rightharpoonup> version_obj"

record user =
  user_name :: string

text \<open>
  The download counter is a JavaScript number holding an integer. \<^verbatim>\<open>downloads++\<close> and
  \<^verbatim>\<open>downloads--\<close> compute the exact sum and round it to the nearest double, ties to the even
  significand: integers of magnitude below \<open>2^53\<close> are doubles; above, the doubles are the
  multiples of the unit in the last place, a power of two that leaves 53 bits. (The sum of a
  finite double and 1 never rounds to \<^verbatim>\<open>Infinity\<close>.)
\<close>

definition round_double :: "int \<Rightarrow> int" where
  "round_double n =
     (if \<bar>n\<bar> < 2 ^ 53 then n
      else
        (let ulp = 2 ^ (floorlog 2 (nat \<bar>n\<bar>) - 53);
             q = \<bar>n\<bar> div ulp;
             r = \<bar>n\<bar> mod ulp;
             q' = (if 2 * r < ulp then q
                   else if ulp < 2 * r then q + 1
                   else if even q then q else q + 1)
         in sgn n * (q' * ulp)))"

definition js_increment :: "int \<Rightarrow> int" where
  "js_increment d = round_double (d + 1)"


text \<open>
  The storage and the user registry are collaborators outside the source files. A handler
  is modelled by what it asks of them: the answers are arguments, the requests it makes are
  listed in order, and so is what it logs. \<open>SetPackageByName_deleted n content k\<close> is the call
  \<^verbatim>\<open>SetPackageByName(n, content)\<close> made after \<^verbatim>\<open>delete content[k]\<close>: the object stored is
  \<open>content\<close> without its property \<open>k\<close>, whichever property that is.
\<close>

datatype call =
    GetPackageByName string
  | SetPackageByName string package
  | SetPackageByName_deleted string package string
  | StarPackageByName string string
  | UnStarPackageByName string string
  | AddUserStar string string

datatype log_entry = HTTPLog | WarningLog string | ErrorLog string

record 'b served =
  response :: "'b response"
  calls :: "call list"
  logged :: "log_entry list"

section \<open>Tarball download\<close>

definition GETPackagesVersionTarball ::
  "string \<Rightarrow> string option \<Rightarrow> package server_status \<Rightarrow> unit server_status \<Rightarrow> unit served"
where
  "GETPackagesVersionTarball packageName versionName pack save =
     (case versionName of
        None \<Rightarrow> \<lparr>response = NotFound, calls = [], logged = []\<rparr>
      | Some v \<Rightarrow>
          if v = [] then \<lparr>response = NotFound, calls = [], logged = []\<rparr>
          else
            (case pack of
               Failed short content \<Rightarrow>
                 \<lparr>response = NotFound, calls = [GetPackageByName packageName], logged = []\<rparr>
             | OK content \<Rightarrow>
                 (case versions content v of
                    None \<Rightarrow>
                      \<lparr>response = NotFound, calls = [GetPackageByName packageName], logged = []\<rparr>
                  | Some ver \<Rightarrow>
                      (let content = content\<lparr>downloads := js_increment (downloads content)\<rparr>;
                           warning = (case save of
                                        OK u \<Rightarrow> []
                                      | Failed short save_content \<Rightarrow> [WarningLog save_content])
                       in \<lparr>response = Redirect (tarball_url ver),
                            calls = [GetPackageByName packageName,
                                     SetPackageByName packageName content],
                            logged = warning @ [HTTPLog]\<rparr>))))"

section \<open>Uninstall event\<close>


section \<open>Deleting a version\<close>




section \<open>Starring a package\<close>

definition POSTPackagesStar ::
  "string \<Rightarrow> user server_status \<Rightarrow> package server_status \<Rightarrow> unit server_status \<Rightarrow>
   unit server_status \<Rightarrow> package served"
where
  "POSTPackagesStar packageName usr pack star unstar =
     (case usr of
        Failed short content \<Rightarrow> \<lparr>response = AuthFail short content, calls = [], logged = []\<rparr>
      | OK u \<Rightarrow>
          (case pack of
             Failed short content \<Rightarrow>
               \<lparr>response = ServerError content,
                calls = [StarPackageByName packageName (user_name u)], logged = []\<rparr>
           | OK pack_content \<Rightarrow>
               (case star of
                  OK s \<Rightarrow>
                    \<lparr>response = Status_json 200 pack_content,
                     calls = [StarPackageByName packageName (user_name u),
                              AddUserStar packageName (user_name u)],
                     logged = [HTTPLog]\<rparr>
                | Failed short star_content \<Rightarrow>
                    (let asked = [StarPackageByName packageName (user_name u),
                                  AddUserStar packageName (user_name u),
                                  UnStarPackageByName packageName (user_name u)]
                     in case unstar of
                          OK s \<Rightarrow>
                            \<lparr>response = ServerError star_content, calls = asked, logged = []\<rparr>
                        | Failed short unstar_content \<Rightarrow>
                            \<lparr>response = ServerErrorJSON, calls = asked,
                             logged = [HTTPLog,
                               ErrorLog ''Failed to unstar package after failing to add star to user. Unstar error, followed by User Star error to follow...'',
                               ErrorLog unstar_content, ErrorLog star_content]\<rparr>))))"

section \<open>What the specification says, for comparison\<close>

text \<open>The slice of section 4.5: indices \<open>[(page - 1) * p, page * p)\<close>, clamped to the sequence.\<close>

definition spec_slice :: "nat \<Rightarrow> nat \<Rightarrow> 'a list \<Rightarrow> 'a list" where
  "spec_slice p pg xs = take p (drop ((pg - 1) * p) xs)"

text \<open>The page count of section 4.5: \<open>max(1, ceil(total_count / pageSize))\<close>.\<close>

definition spec_total_pages :: "nat \<Rightarrow> nat \<Rightarrow> nat" where
  "spec_total_pages total_count p = max 1 (nat \<lceil>real total_count / real p\<rceil>)"

section \<open>Reading a listing\<close>

text \<open>The sequence the pagination statements start from: the array after sort and direction.\<close>

definition listing_order :: "('p, 's, 'f) collection \<Rightarrow> params \<Rightarrow> 'p list \<Rightarrow> 'p list" where
  "listing_order collection ps xs =
     Direction collection (Sort collection xs (sort_param ps)) (direction ps)"

definition search_order :: "('p, 's, 'f) collection \<Rightarrow> params \<Rightarrow> 'p list \<Rightarrow> 'p list" where
  "search_order collection ps xs =
     Direction collection
       (Sort collection (SearchWithinPackages collection (query ps) xs) (sort_param ps))
       (direction ps)"

definition link_pages :: "string \<Rightarrow> ('p, 's) listing \<Rightarrow> nat list" where
  "link_pages r out = map page_no (filter (\<lambda>l. rel l = r) (link_header out))"

definition listed :: "('p, 's) listing \<Rightarrow> 's list" where
  "listed out = (case reply out of Status_json status body \<Rightarrow> body | _ \<Rightarrow> [])"

text \<open>
  Modelled from the spec: an instance of the collection functions, used to run the handlers
  on concrete catalogs. \<^verbatim>\<open>Sort\<close> with key \<^verbatim>\<open>downloads\<close> orders by download count,
  descending and stable, and with key \<^verbatim>\<open>stars\<close> by the number of star gazers (section 4.3);
  any other key leaves the order as it is. \<^verbatim>\<open>Direction\<close> reverses for \<^verbatim>\<open>asc\<close>. The short
  view of a package is its name and download count; the full view and the engine filter
  keep the package as it is, but for the versions, of which the filter keeps the one
  named.
\<close>

definition sample_collection :: "(package, string \<times> int, package) collection" where
  "sample_collection =
     \<lparr>Sort = (\<lambda>xs key.
         if key = ''downloads'' then sort_key (\<lambda>p. - downloads p) xs
         else if key = ''stars'' then sort_key (\<lambda>p. - int (length (star_gazers p))) xs
         else xs),
      Direction = (\<lambda>xs d. if d = ''asc'' then rev xs else xs),
      SearchWithinPackages = (\<lambda>qs xs. xs),
      POSPrune = map (\<lambda>p. (name p, downloads p)),
      POFPrune = (\<lambda>p. p),
      EngineFilter = (\<lambda>p e. p\<lparr>versions := (versions p) |` {e}\<rparr>)\<rparr>"

definition pkg :: "string \<Rightarrow> int \<Rightarrow> package" where
  "pkg n d = \<lparr>name = n, downloads = d, star_gazers = [], versions = Map.empty\<rparr>"

text \<open>A heap whose only array, at reference 0, is the cached catalog.\<close>

definition cache_heap :: "'p list \<Rightarrow> 'p heap" where
  "cache_heap xs = \<lparr>cells = (\<lambda>r. [])(0 := xs), fresh = 1\<rparr>"

definition request :: "nat \<Rightarrow> params" where
  "request pg = \<lparr>page = pg, sort_param = ''downloads'', direction = ''desc'', query = []\<rparr>"

text \<open>The catalog of the scenario in section 8: seven packages, here cached out of order.\<close>

definition catalog7 :: "package list" where
  "catalog7 =
     [pkg ''d'' 40, pkg ''a'' 70, pkg ''g'' 10, pkg ''b'' 60, pkg ''e'' 30, pkg ''c'' 50,
      pkg ''f'' 20]"




text \<open>A package with two published versions.\<close>

definition two_versions :: package where
  "two_versions =
     \<lparr>name = ''zen-theme'', downloads = 5, star_gazers = [],
      versions = [''1.0.0'' \<mapsto> \<lparr>tarball_url = ''https://example.org/zen-theme-1.0.0.tgz''\<rparr>,
                  ''2.0.0'' \<mapsto> \<lparr>tarball_url = ''https://example.org/zen-theme-2.0.0.tgz''\<rparr>]\<rparr>"

section \<open>Page count and page window\<close>

text \<open>The page count times the page size reaches the end of the sequence.\<close>

lemma Math_ceil_div_covers:
  assumes "0 < p"
  shows "n \<le> Math_ceil_div n p * p"
proof -
  have "real n / real p \<le> real_of_int \<lceil>real n / real p\<rceil>"
    by (rule le_of_int_ceiling)
  also have "\<dots> = real (Math_ceil_div n p)"
    by (simp add: Math_ceil_div_def)
  finally have "real n \<le> real (Math_ceil_div n p) * real p"
    using assms by (simp add: pos_divide_le_eq)
  then have "real n \<le> real (Math_ceil_div n p * p)"
    by simp
  then show ?thesis
    by linarith
qed

lemma Math_ceil_div_zero_iff:
  assumes "0 < p"
  shows "Math_ceil_div n p = 0 \<longleftrightarrow> n = 0"
  using assms by (auto simp: Math_ceil_div_def ceiling_le_zero le_divide_eq_1 divide_le_0_iff)

lemma Math_ceil_div_spec:
  assumes "0 < p"
  shows "Math_ceil_div n p = (if n = 0 then 0 else spec_total_pages n p)"
proof (cases "n = 0")
  case True
  then show ?thesis
    by (simp add: Math_ceil_div_def)
next
  case False
  with assms have "Math_ceil_div n p \<noteq> 0"
    by (simp add: Math_ceil_div_zero_iff)
  then have "1 \<le> Math_ceil_div n p"
    by simp
  with False show ?thesis
    by (simp add: spec_total_pages_def Math_ceil_div_def)
qed

text \<open>
  What the two \<^verbatim>\<open>splice\<close> calls keep: page 1 keeps the indices \<open>[0, 2p)\<close>, any other page
  \<open>pg\<close> keeps \<open>pg * p + p\<close> elements from index \<open>pg * p\<close> on.
\<close>

lemma prune_to_page_window:
  assumes "0 < p"
  shows "prune_to_page p pg (Math_ceil_div (length xs) p) xs =
           (if pg = 1 then take (2 * p) xs else take (pg * p + p) (drop (pg * p) xs))"
proof (cases "pg = Math_ceil_div (length xs) p")
  case True
  then have "length xs \<le> pg * p"
    using Math_ceil_div_covers [OF assms, of "length xs"] by simp
  then have "drop (pg * p) xs = []" and "pg = 1 \<longrightarrow> take (2 * p) xs = xs"
    by auto
  then show ?thesis
    using True by (simp add: prune_to_page_def splice_def Let_def)
next
  case False
  then show ?thesis
    by (simp add: prune_to_page_def splice_def Let_def mult_2)
qed

section \<open>The listing handlers, field by field\<close>

lemma reply_GETPackages:
  "reply (GETPackages col p ps (OK r) h) =
     Status_json 200 (POSPrune col
       (prune_to_page p (page ps) (Math_ceil_div (length (listing_order col ps (cells h r))) p)
          (listing_order col ps (cells h r))))"
  by (simp add: GETPackages_def DeepCopy_def in_place_def listing_order_def Let_def
      page_post_increment_def)

lemma reply_GETPackagesSearch:
  "reply (GETPackagesSearch col p ps (OK r) h) =
     Status_json 200 (POSPrune col
       (prune_to_page p (page ps) (Math_ceil_div (length (search_order col ps (cells h r))) p)
          (search_order col ps (cells h r))))"
  by (simp add: GETPackagesSearch_def DeepCopy_def in_place_def search_order_def Let_def
      page_post_increment_def)

lemma last_link_GETPackages:
  "link_pages ''last'' (GETPackages col p ps (OK r) h) =
     [Math_ceil_div (length (listing_order col ps (cells h r))) p]"
  by (simp add: link_pages_def GETPackages_def DeepCopy_def in_place_def listing_order_def
      Let_def page_post_increment_def)

lemma last_link_GETPackagesSearch:
  "link_pages ''last'' (GETPackagesSearch col p ps (OK r) h) =
     [Math_ceil_div (length (search_order col ps (cells h r))) p]"
  by (simp add: link_pages_def GETPackagesSearch_def DeepCopy_def in_place_def search_order_def
      Let_def page_post_increment_def)

text \<open>
  After \<^verbatim>\<open>GETPackages\<close> the cached array itself holds the page window; after
  \<^verbatim>\<open>GETPackagesSearch\<close> it is as before, since that handler works on its copy.
\<close>

lemma cache_after_GETPackages:
  "cells (heap_after (GETPackages col p ps (OK r) h)) r =
     prune_to_page p (page ps) (Math_ceil_div (length (listing_order col ps (cells h r))) p)
       (listing_order col ps (cells h r))"
  by (simp add: GETPackages_def DeepCopy_def in_place_def listing_order_def Let_def
      page_post_increment_def)

lemma cache_after_GETPackagesSearch:
  assumes "r \<noteq> fresh h"
  shows "cells (heap_after (GETPackagesSearch col p ps (OK r) h)) r = cells h r"
  using assms
  by (simp add: GETPackagesSearch_def DeepCopy_def in_place_def Let_def page_post_increment_def)

lemmas sample_defs =
  sample_collection_def pkg_def cache_heap_def request_def catalog7_def listed_def link_pages_def
  GETPackages_def GETPackagesSearch_def DeepCopy_def in_place_def page_post_increment_def
  prune_to_page_def splice_def Math_ceil_div_def listing_order_def search_order_def
  spec_slice_def spec_total_pages_def Let_def

section \<open>Claims about pagination\<close>

text \<open>
  Claim C1 (the slice of a page). The specification asks for the indices
  \<open>[(page - 1) * p, page * p)\<close> of the sorted sequence. On the scenario of its section 8 (seven
  packages, page size 3, sorted by downloads, descending) both handlers answer page 1 with the
  first six packages where the specified slice has three, and page 3 with no package where the
  specified slice has the seventh.
\<close>

theorem listing_window_scenario:
  "listed (GETPackages sample_collection 3 (request 1) (OK 0) (cache_heap catalog7)) =
     [(''a'', 70), (''b'', 60), (''c'', 50), (''d'', 40), (''e'', 30), (''f'', 20)]
   \<and> spec_slice 3 1
        (POSPrune sample_collection (listing_order sample_collection (request 1) catalog7)) =
     [(''a'', 70), (''b'', 60), (''c'', 50)]
   \<and> listed (GETPackages sample_collection 3 (request 3) (OK 0) (cache_heap catalog7)) = []
   \<and> spec_slice 3 3
        (POSPrune sample_collection (listing_order sample_collection (request 3) catalog7)) =
     [(''g'', 10)]
   \<and> listed (GETPackagesSearch sample_collection 3 (request 1) (OK 0) (cache_heap catalog7)) =
     [(''a'', 70), (''b'', 60), (''c'', 50), (''d'', 40), (''e'', 30), (''f'', 20)]
   \<and> listed (GETPackagesSearch sample_collection 3 (request 3) (OK 0) (cache_heap catalog7)) = []"
  by (simp add: sample_defs)

text \<open>
  Claim C2 (the pages together). With the same seven packages and page size 2 the handler
  announces four pages; their contents, one after the other, are eight entries: the sorted
  catalog followed by its last package a second time.
\<close>

theorem pages_concatenated_scenario:
  "link_pages ''last'' (GETPackages sample_collection 2 (request 1) (OK 0) (cache_heap catalog7)) = [4]
   \<and> listed (GETPackages sample_collection 2 (request 1) (OK 0) (cache_heap catalog7))
     @ listed (GETPackages sample_collection 2 (request 2) (OK 0) (cache_heap catalog7))
     @ listed (GETPackages sample_collection 2 (request 3) (OK 0) (cache_heap catalog7))
     @ listed (GETPackages sample_collection 2 (request 4) (OK 0) (cache_heap catalog7)) =
     [(''a'', 70), (''b'', 60), (''c'', 50), (''d'', 40), (''e'', 30), (''f'', 20), (''g'', 10),
      (''g'', 10)]
   \<and> POSPrune sample_collection (listing_order sample_collection (request 1) catalog7) =
     [(''a'', 70), (''b'', 60), (''c'', 50), (''d'', 40), (''e'', 30), (''f'', 20), (''g'', 10)]"
  by (simp add: sample_defs)

text \<open>
  Claim C3 (the page count), as amended. For a positive page size the page count written into
  the \<^verbatim>\<open>last\<close> link is \<open>max(1, ceil(total_count / p))\<close> when there is at least one package,
  and 0 when there is none.
\<close>

theorem total_pages_of_request:
  assumes "0 < p"
  shows "link_pages ''last'' (GETPackages col p ps (OK r) h) =
           [if length (listing_order col ps (cells h r)) = 0 then 0
            else spec_total_pages (length (listing_order col ps (cells h r))) p]
       \<and> link_pages ''last'' (GETPackagesSearch col p ps (OK r) h) =
           [if length (search_order col ps (cells h r)) = 0 then 0
            else spec_total_pages (length (search_order col ps (cells h r))) p]"
  using Math_ceil_div_spec [OF assms]
  by (simp only: last_link_GETPackages last_link_GETPackagesSearch)

text \<open>The amended statement on the seven packages with page size 3: three pages.\<close>

theorem total_pages_of_request_witness:
  "(0::nat) < 3
   \<and> link_pages ''last'' (GETPackages sample_collection 3 (request 1) (OK 0) (cache_heap catalog7)) = [3]
   \<and> link_pages ''last'' (GETPackagesSearch sample_collection 3 (request 1) (OK 0) (cache_heap catalog7)) = [3]
   \<and> spec_total_pages (length (listing_order sample_collection (request 1) catalog7)) 3 = 3"
  using total_pages_of_request [of 3 sample_collection "request 1" 0 "cache_heap catalog7"]
  by (simp add: sample_defs)

text \<open>
  Claim C3 as the specification states it fails on an empty catalog: the handlers compute 0
  pages, the specification asks for 1.
\<close>

theorem total_pages_empty_catalog:
  "link_pages ''last'' (GETPackages sample_collection 30 (request 1) (OK 0) (cache_heap [])) = [0]
   \<and> link_pages ''last'' (GETPackagesSearch sample_collection 30 (request 1) (OK 0) (cache_heap [])) = [0]
   \<and> spec_total_pages (length (listing_order sample_collection (request 1) [])) 30 = 1"
  by (simp add: sample_defs)

text \<open>
  Claim C4 (the links). The \<^verbatim>\<open>self\<close> link carries the requested page (and the \<^verbatim>\<open>last\<close>
  link the page count, as shown above). The \<^verbatim>\<open>next\<close> link is formatted from
  \<^verbatim>\<open>params.page++\<close>, whose value is the page before the increment: it carries the requested
  page again, not the page after it, and only the parameter record, which nothing reads
  afterwards, is one further.
\<close>

theorem next_link_repeats_page:
  "link_pages ''self'' (GETPackages col p ps (OK r) h) = [page ps]
   \<and> link_pages ''next'' (GETPackages col p ps (OK r) h) = [page ps]
   \<and> page (params_after (GETPackages col p ps (OK r) h)) = page ps + 1
   \<and> link_pages ''self'' (GETPackagesSearch col p ps (OK r) h) = [page ps]
   \<and> link_pages ''next'' (GETPackagesSearch col p ps (OK r) h) = [page ps]
   \<and> page (params_after (GETPackagesSearch col p ps (OK r) h)) = page ps + 1"
  by (simp add: link_pages_def GETPackages_def GETPackagesSearch_def DeepCopy_def in_place_def
      listing_order_def search_order_def Let_def page_post_increment_def)

section \<open>Claim about the cached catalog\<close>

text \<open>
  Claim C5 (the cached catalog is left alone). \<^verbatim>\<open>GETPackages\<close> makes a deep copy and then
  hands the cached array, not the copy, to \<^verbatim>\<open>Sort\<close>. On the seven cached packages, a request
  for page 2 with page size 3 leaves one package in the cache; the same request to
  \<^verbatim>\<open>GETPackagesSearch\<close>, which sorts its copy, leaves the cache as it was.
\<close>

theorem cache_after_listing_scenario:
  "map name (cells (cache_heap catalog7) 0) = [''d'', ''a'', ''g'', ''b'', ''e'', ''c'', ''f'']
   \<and> map name (cells (heap_after (GETPackages sample_collection 3 (request 2) (OK 0)
                                    (cache_heap catalog7))) 0) = [''g'']
   \<and> map name (cells (heap_after (GETPackagesSearch sample_collection 3 (request 2) (OK 0)
                                    (cache_heap catalog7))) 0) =
     [''d'', ''a'', ''g'', ''b'', ''e'', ''c'', ''f'']"
  by (simp add: sample_defs)

section \<open>Claim about the engine filter\<close>

text \<open>
  Claim C6 (where the engine filter applies). On the detail view a requested version that is
  absent or is not a semver gives the pruned package unfiltered, with status 200; a requested
  semver gives the filtered package; any falsy value of \<^verbatim>\<open>params.engine\<close> skips the filter.
  The answers of the listing and of the search do not depend on the filter at all.
\<close>

theorem engine_filter_only_on_details:
  "((requested = None \<or> (\<exists>v. requested = Some v \<and> \<not> is_semver v)) \<longrightarrow>
      GETPackagesDetails col (query_engine is_semver requested) (OK content) =
        Status_json 200 (POFPrune col content))
   \<and> (requested = Some v \<and> is_semver v \<and> v \<noteq> [] \<longrightarrow>
      GETPackagesDetails col (query_engine is_semver requested) (OK content) =
        Status_json 200 (EngineFilter col (POFPrune col content) v))
   \<and> (\<not> truthy engine \<longrightarrow>
      GETPackagesDetails col engine (OK content) = Status_json 200 (POFPrune col content))
   \<and> GETPackages (col\<lparr>EngineFilter := f\<rparr>) p ps all_packages h = GETPackages col p ps all_packages h
   \<and> GETPackagesSearch (col\<lparr>EngineFilter := f\<rparr>) p ps all_packages h =
       GETPackagesSearch col p ps all_packages h"
proof -
  have absent: "GETPackagesDetails col (query_engine is_semver requested) (OK content) =
      Status_json 200 (POFPrune col content)"
    if "requested = None \<or> (\<exists>v. requested = Some v \<and> \<not> is_semver v)"
    using that by (auto simp: GETPackagesDetails_def query_engine_def)
  have present: "GETPackagesDetails col (query_engine is_semver requested) (OK content) =
      Status_json 200 (EngineFilter col (POFPrune col content) v)"
    if "requested = Some v \<and> is_semver v \<and> v \<noteq> []"
    using that by (simp add: GETPackagesDetails_def query_engine_def)
  have falsy: "GETPackagesDetails col engine (OK content) = Status_json 200 (POFPrune col content)"
    if "\<not> truthy engine"
    using that by (simp add: GETPackagesDetails_def truthy_def split: option.splits)
  have listing: "GETPackages (col\<lparr>EngineFilter := f\<rparr>) p ps all_packages h =
      GETPackages col p ps all_packages h"
    by (cases all_packages) (simp_all add: GETPackages_def)
  have search: "GETPackagesSearch (col\<lparr>EngineFilter := f\<rparr>) p ps all_packages h =
      GETPackagesSearch col p ps all_packages h"
    by (cases all_packages) (simp_all add: GETPackagesSearch_def)
  from absent present falsy listing search show ?thesis
    by blast
qed

text \<open>The statement on a package with two versions: a malformed, an absent and a valid request.\<close>

theorem engine_filter_only_on_details_witness:
  "(Some ''latest'' = None \<or> (\<exists>v. Some ''latest'' = Some v \<and> \<not> (v = ''1.0.0'')))
   \<and> GETPackagesDetails sample_collection (query_engine (\<lambda>s. s = ''1.0.0'') (Some ''latest''))
        (OK two_versions) = Status_json 200 two_versions
   \<and> \<not> truthy None
   \<and> GETPackagesDetails sample_collection None (OK two_versions) = Status_json 200 two_versions
   \<and> (Some ''1.0.0'' = Some ''1.0.0'' \<and> ''1.0.0'' = ''1.0.0'' \<and> ''1.0.0'' \<noteq> [])
   \<and> GETPackagesDetails sample_collection (query_engine (\<lambda>s. s = ''1.0.0'') (Some ''1.0.0''))
        (OK two_versions) =
       Status_json 200 (two_versions\<lparr>versions := versions two_versions |` {''1.0.0''}\<rparr>)"
  using engine_filter_only_on_details [where requested = "Some ''latest''"
      and is_semver = "\<lambda>s. s = ''1.0.0''" and col = sample_collection and content = two_versions
      and engine = None]
    engine_filter_only_on_details [where requested = "Some ''1.0.0''" and v = "''1.0.0''"
      and is_semver = "\<lambda>s. s = ''1.0.0''" and col = sample_collection and content = two_versions
      and engine = None]
  by (simp add: sample_collection_def truthy_def)

section \<open>Claims about the download counter\<close>


















text \<open>
  Claim C9 (the tarball redirect does not depend on the save). When the version is a non-empty
  string from \<^verbatim>\<open>query.engine\<close>, the package was found and has that version, the response is
  the redirect to the version's tarball, whatever \<^verbatim>\<open>SetPackageByName\<close> answers; a failed save
  adds a warning to the log and nothing else.
\<close>

theorem tarball_redirects_despite_failed_save:
  assumes "versionName = Some v" and "v \<noteq> []"
    and "pack = OK content" and "versions content v = Some ver"
  shows "response (GETPackagesVersionTarball packageName versionName pack save) =
           Redirect (tarball_url ver)
       \<and> logged (GETPackagesVersionTarball packageName versionName pack save) =
           (case save of OK u \<Rightarrow> [HTTPLog] | Failed short c \<Rightarrow> [WarningLog c, HTTPLog])
       \<and> calls (GETPackagesVersionTarball packageName versionName pack save) =
           [GetPackageByName packageName,
            SetPackageByName packageName
              (content\<lparr>downloads := js_increment (downloads content)\<rparr>)]"
  using assms by (simp add: GETPackagesVersionTarball_def Let_def split: server_status.splits)

text \<open>The statement on a save that fails.\<close>

theorem tarball_redirects_despite_failed_save_witness:
  "versions two_versions ''1.0.0'' =
     Some \<lparr>tarball_url = ''https://example.org/zen-theme-1.0.0.tgz''\<rparr>
   \<and> response (GETPackagesVersionTarball ''zen-theme'' (Some ''1.0.0'') (OK two_versions)
        (Failed ''Server Error'' ''write failed'')) =
      Redirect ''https://example.org/zen-theme-1.0.0.tgz''
   \<and> logged (GETPackagesVersionTarball ''zen-theme'' (Some ''1.0.0'') (OK two_versions)
        (Failed ''Server Error'' ''write failed'')) = [WarningLog ''write failed'', HTTPLog]"
  using tarball_redirects_despite_failed_save [of "Some ''1.0.0''" "''1.0.0''" "OK two_versions"
      two_versions "\<lparr>tarball_url = ''https://example.org/zen-theme-1.0.0.tgz''\<rparr>"
      "''zen-theme''" "Failed ''Server Error'' ''write failed''"]
  by (simp add: two_versions_def)

section \<open>Claim about starring\<close>

text \<open>
  Claim C10 (a star is on both sides or on neither). If the user is authenticated and the
  package took the star but the user's profile did not, the handler asks the storage to remove
  the star from the package and answers with a server error. A response with status 200 is sent
  only when authentication, the star on the package and the star on the profile all succeeded,
  and then no removal is asked for.
\<close>

theorem star_recorded_or_removed:
  "(usr = OK u \<and> pack = OK p \<and> star = Failed short c \<longrightarrow>
      calls (POSTPackagesStar n usr pack star unstar) =
        [StarPackageByName n (user_name u), AddUserStar n (user_name u),
         UnStarPackageByName n (user_name u)]
      \<and> (response (POSTPackagesStar n usr pack star unstar) = ServerError c
         \<or> response (POSTPackagesStar n usr pack star unstar) = ServerErrorJSON))
   \<and> ((\<exists>body. response (POSTPackagesStar n usr pack star unstar) = Status_json 200 body) \<longrightarrow>
      ok usr \<and> ok pack \<and> ok star
      \<and> response (POSTPackagesStar n usr pack star unstar) = Status_json 200 (case pack of OK p \<Rightarrow> p)
      \<and> (\<exists>who. calls (POSTPackagesStar n usr pack star unstar) =
            [StarPackageByName n who, AddUserStar n who]))"
  by (auto simp: POSTPackagesStar_def Let_def split: server_status.splits)

text \<open>The statement on a profile that cannot be updated, and on one that can.\<close>

theorem star_recorded_or_removed_witness:
  "calls (POSTPackagesStar ''zen-theme'' (OK \<lparr>user_name = ''dev''\<rparr>) (OK two_versions)
      (Failed ''Server Error'' ''no such user file'') (OK ())) =
     [StarPackageByName ''zen-theme'' ''dev'', AddUserStar ''zen-theme'' ''dev'',
      UnStarPackageByName ''zen-theme'' ''dev'']
   \<and> response (POSTPackagesStar ''zen-theme'' (OK \<lparr>user_name = ''dev''\<rparr>) (OK two_versions)
      (Failed ''Server Error'' ''no such user file'') (OK ())) = ServerError ''no such user file''
   \<and> response (POSTPackagesStar ''zen-theme'' (OK \<lparr>user_name = ''dev''\<rparr>) (OK two_versions)
      (OK ()) (OK ())) = Status_json 200 two_versions"
  using star_recorded_or_removed [of "OK \<lparr>user_name = ''dev''\<rparr>" "\<lparr>user_name = ''dev''\<rparr>"
      "OK two_versions" two_versions "Failed ''Server Error'' ''no such user file''"
      "''Server Error''" "''no such user file''" "''zen-theme''" "OK ()"]
    star_recorded_or_removed [of "OK \<lparr>user_name = ''dev''\<rparr>" "\<lparr>user_name = ''dev''\<rparr>"
      "OK two_versions" two_versions "OK ()" "''''" "''''" "''zen-theme''" "OK ()"]
  by (simp add: POSTPackagesStar_def)

end
